theory Spec2Isabelle
  imports Main "HOL-Library.Word"
begin

section \<open>The network interface domain converter of virt-launcher\<close>

text \<open>
  A shallow embedding of \<^verbatim>\<open>pkg/virt-launcher/virtwrap/converter/network.go\<close>.
  Pointers of the Go structures are options, slices are lists, the Go \<^verbatim>\<open>error\<close> and a
  run-time panic are the two constructors of one error type, and the two effects of the
  converter (appending to the domain's QEMU arguments, writing log lines) are passed
  explicitly: every function that has an effect returns what it wrote.
\<close>

subsection \<open>Errors and log lines\<close>

datatype error = Error string | Panic string

datatype LogEntry = Infof string | InfofV3 string | Errorf string

definition nilDereference :: error where
  "nilDereference = Panic ''invalid memory address or nil pointer dereference''"

subsection \<open>Formatting and string helpers of the Go library\<close>

definition digit :: "nat \<Rightarrow> char" where
  "digit d = ''0123456789'' ! d"

text \<open>The verb \<^verbatim>\<open>%d\<close> on an unsigned value.\<close>

fun fmt_d :: "nat \<Rightarrow> string" where
  "fmt_d n = (if n < 10 then [digit n] else fmt_d (n div 10) @ [digit (n mod 10)])"

declare fmt_d.simps [simp del]

text \<open>The verb \<^verbatim>\<open>%d\<close> on a Go \<^verbatim>\<open>int\<close>.\<close>

definition fmt_d_int :: "int \<Rightarrow> string" where
  "fmt_d_int i = (if i < 0 then CHR ''-'' # fmt_d (nat (- i)) else fmt_d (nat i))"

text \<open>\<^verbatim>\<open>strings.Split(s, sep)\<close> for a separator of one byte: never an empty result.\<close>

fun strings_Split :: "string \<Rightarrow> char \<Rightarrow> string list" where
  "strings_Split [] sep = [[]]"
| "strings_Split (x # xs) sep =
     (if x = sep then [] # strings_Split xs sep
      else (case strings_Split xs sep of
              [] \<Rightarrow> [[x]]
            | p # ps \<Rightarrow> (x # p) # ps))"

text \<open>\<^verbatim>\<open>strings.ToLower\<close> on ASCII text (protocol names are ASCII).\<close>

definition toLowerChar :: "char \<Rightarrow> char" where
  "toLowerChar c =
     (case map_of (zip ''ABCDEFGHIJKLMNOPQRSTUVWXYZ'' ''abcdefghijklmnopqrstuvwxyz'') c of
        None \<Rightarrow> c
      | Some l \<Rightarrow> l)"

definition strings_ToLower :: "string \<Rightarrow> string" where
  "strings_ToLower s = map toLowerChar s"

text \<open>\<^verbatim>\<open>strings.Join\<close>.\<close>

fun strings_Join :: "string list \<Rightarrow> string \<Rightarrow> string" where
  "strings_Join [] sep = []"
| "strings_Join [s] sep = s"
| "strings_Join (s # t # ss) sep = s @ sep @ strings_Join (t # ss) sep"

subsection \<open>The resource: networks and interfaces (package v1)\<close>

record PodNetwork =
  VMNetworkCIDR :: string

record MultusNetwork =
  NetworkName :: string
  Default :: bool

record Network =
  net_Name :: string
  Pod :: "PodNetwork option"
  Multus :: "MultusNetwork option"

text \<open>
  Modelled from the spec: the declaration of \<^verbatim>\<open>v1.Port\<close> is not part of the sources; the
  spec's data model gives a forwarded port as an unsigned 16-bit number and a protocol.
\<close>

record Port =
  port_Protocol :: string
  port_Port :: "16 word"

text \<open>
  The six binding methods are pointers to (empty) structures in the source; a field is
  \<open>True\<close> when the pointer is set.
\<close>

record Interface =
  if_Name :: string
  if_Model :: string
  if_PciAddress :: string
  if_BootOrder :: "nat option"
  if_Ports :: "Port list"
  Bridge :: bool
  Slirp :: bool
  Masquerade :: bool
  SRIOV :: bool
  Macvtap :: bool
  Vhostuser :: bool

record VirtualMachineInstance =
  Networks :: "Network list"
  Interfaces :: "Interface list"
  NetworkInterfaceMultiQueue :: "bool option"

subsection \<open>The domain (package api)\<close>

record Arg =
  arg_Value :: string

record Commandline =
  QEMUArg :: "Arg list"

record Domain =
  QEMUCmd :: "Commandline option"

record Model =
  model_Type :: string

text \<open>
  Modelled from the spec: \<^verbatim>\<open>api.NewUserDefinedAlias\<close> is not part of the sources; the
  spec's base record carries the interface name as its alias.
\<close>

record Alias =
  alias_name :: string
  userDefined :: bool

definition NewUserDefinedAlias :: "string \<Rightarrow> Alias" where
  "NewUserDefinedAlias aliasName = \<lparr>alias_name = aliasName, userDefined = True\<rparr>"

record InterfaceDriver =
  drv_Name :: string
  Queues :: "nat option"
  RxQueueSize :: "32 word option"
  TxQueueSize :: "32 word option"

record Address =
  addr_Type :: string
  addr_Domain :: string
  addr_Bus :: string
  addr_Slot :: string
  addr_Function :: string

record BootOrder =
  Order :: nat

record Rom =
  Enabled :: string

record InterfaceSource =
  src_Type :: string
  src_Path :: string
  src_Mode :: string

record InterfaceTarget =
  Device :: string

record DomainInterface =
  di_Type :: string
  di_Model :: "Model option"
  di_Alias :: "Alias option"
  di_Driver :: "InterfaceDriver option"
  di_Address :: "Address option"
  di_BootOrder :: "BootOrder option"
  di_Rom :: "Rom option"
  di_Source :: InterfaceSource
  di_Target :: "InterfaceTarget option"

subsection \<open>The discovered pod interfaces (vendored packages) and the converter context\<close>

text \<open>
  The entries come from vendored packages whose declarations are not part of the
  sources. \<^verbatim>\<open>DeviceInfo\<close> and \<^verbatim>\<open>VhostUser\<close> are pointers there, which the converter
  follows without a check.
\<close>

record VhostDevice =
  vhost_Mode :: string
  vhost_Path :: string

record DeviceInfo =
  VhostUser :: "VhostDevice option"

record NetworkStatus =
  ns_Name :: string
  ns_DeviceInfo :: "DeviceInfo option"

record InterfaceData =
  DeviceType :: string
  NetworkStatus :: NetworkStatus

record InterfaceResponse =
  pni_Interface :: "InterfaceData list"

record ConverterContext =
  PodNetInterfaces :: "InterfaceResponse option"

definition DeviceInfoTypeVHostUser :: string where
  "DeviceInfoTypeVHostUser = ''vhost-user''"

subsection \<open>What the converter takes from outside network.go\<close>

text \<open>
  Functions and constants of other packages that are not part of the sources are
  parameters of the model: the model translator, the queue cap, the vCPU count of the
  CPU topology, the PCI address parser, the socket directory, the default CIDR, the CIDR
  check of the Go library, and the read and the two parsers of the resolver
  configuration.
\<close>

record externals =
  translateModel :: "ConverterContext \<Rightarrow> string \<Rightarrow> string"
  multiQueueMaxQueues :: "32 word"
  CalculateRequestedVCPUs :: "VirtualMachineInstance \<Rightarrow> 32 word"
  NewPciAddressField :: "string \<Rightarrow> string + Address"
  VhostuserSocketDir :: string
  DefaultVMCIDR :: string
  ParseCIDR_ok :: "string \<Rightarrow> bool"
  resolvConf :: string
  ReadFile :: "string \<Rightarrow> string + string"
  ParseNameservers :: "string \<Rightarrow> string + string list"
  ParseSearchDomains :: "string \<Rightarrow> string + string list"

text \<open>
  Modelled from the spec: \<^verbatim>\<open>api.DefaultProtocol\<close> is not part of the sources; the spec
  defaults an empty protocol to TCP.
\<close>

definition DefaultProtocol :: string where
  "DefaultProtocol = ''TCP''"

text \<open>
  Modelled from the spec: \<^verbatim>\<open>initializeQEMUCmdAndQEMUArg\<close> is not part of the sources; the
  spec appends to the domain's command-line argument sequence, so the initialiser makes
  the sequence exist and keeps one that is there.
\<close>

definition initializeQEMUCmdAndQEMUArg :: "Domain \<Rightarrow> Domain" where
  "initializeQEMUCmdAndQEMUArg domain =
     (case QEMUCmd domain of
        None \<Rightarrow> domain\<lparr>QEMUCmd := Some \<lparr>QEMUArg = []\<rparr>\<rparr>
      | Some _ \<Rightarrow> domain)"

definition PrimaryPodInterfaceName :: string where
  "PrimaryPodInterfaceName = ''eth0''"

subsection \<open>Validation and the index of the networks\<close>

fun validateNetworksTypes :: "Network list \<Rightarrow> error option" where
  "validateNetworksTypes [] = None"
| "validateNetworksTypes (network # networks) =
     (if Pod network \<noteq> None \<and> Multus network \<noteq> None
      then Some (Error (''network '' @ net_Name network @ '' must have only one network type''))
      else if Pod network = None \<and> Multus network = None
      then Some (Error (''network '' @ net_Name network @ '' must have a network type''))
      else validateNetworksTypes networks)"

text \<open>A later network of the same name overwrites the earlier one.\<close>

definition indexNetworksByName :: "Network list \<Rightarrow> (string \<rightharpoonup> Network)" where
  "indexNetworksByName networks =
     foldl (\<lambda>netsByName network. netsByName(net_Name network \<mapsto> network)) Map.empty networks"

subsection \<open>The effective model and the queue count\<close>

definition getInterfaceType :: "Interface \<Rightarrow> string \<times> LogEntry list" where
  "getInterfaceType iface =
     (if Slirp iface then
        (if if_Model iface \<noteq> ''e1000'' \<and> if_Model iface \<noteq> ''rtl8139''
         then (''e1000'',
               [Infof (''The network interface type of '' @ if_Name iface @
                  '' was changed to e1000 due to unsupported interface type by qemu slirp network'')])
         else (if_Model iface, []))
      else if if_Model iface \<noteq> [] then (if_Model iface, [])
      else (''virtio'', []))"

definition CalculateNetworkQueues ::
  "externals \<Rightarrow> VirtualMachineInstance \<Rightarrow> 32 word \<times> LogEntry list" where
  "CalculateNetworkQueues ext vmi =
     (let queueNumber = CalculateRequestedVCPUs ext vmi in
      if queueNumber > multiQueueMaxQueues ext
      then (multiQueueMaxQueues ext,
            [InfofV3 (''Capped the number of queues to be the current maximum of tap device queues: '' @
               fmt_d (unat (multiQueueMaxQueues ext)))])
      else (queueNumber, []))"

subsection \<open>The argument of user-mode networking\<close>

text \<open>
  The functions that write through the pointer \<^verbatim>\<open>qemuArg\<close> return the argument as they
  leave it, also next to an error. \<^verbatim>\<open>configuredPorts\<close> is the set of keys of the Go map.
\<close>

fun configPortForward_loop :: "Port list \<Rightarrow> string set \<Rightarrow> Arg \<Rightarrow> error option \<times> Arg" where
  "configPortForward_loop [] configuredPorts qemuArg = (None, qemuArg)"
| "configPortForward_loop (forwardPort # ports) configuredPorts qemuArg =
     (if port_Port forwardPort = 0 then (Some (Error ''Port must be configured''), qemuArg)
      else
        (let protocol = (if port_Protocol forwardPort = [] then DefaultProtocol
                         else port_Protocol forwardPort);
             portConfig = protocol @ ''-'' @ fmt_d (unat (port_Port forwardPort))
         in if portConfig \<notin> configuredPorts
            then configPortForward_loop ports (insert portConfig configuredPorts)
                   (qemuArg\<lparr>arg_Value := arg_Value qemuArg @ '',hostfwd='' @
                      strings_ToLower protocol @ ''::'' @ fmt_d (unat (port_Port forwardPort)) @
                      ''-:'' @ fmt_d (unat (port_Port forwardPort))\<rparr>)
            else configPortForward_loop ports configuredPorts qemuArg))"

definition configPortForward :: "Arg \<Rightarrow> Interface \<Rightarrow> error option \<times> Arg" where
  "configPortForward qemuArg iface = configPortForward_loop (if_Ports iface) {} qemuArg"

definition configVMCIDR :: "externals \<Rightarrow> Arg \<Rightarrow> Network \<Rightarrow> error option \<times> Arg" where
  "configVMCIDR ext qemuArg network =
     (case Pod network of
        None \<Rightarrow> (Some nilDereference, qemuArg)
      | Some pod \<Rightarrow>
          if VMNetworkCIDR pod \<noteq> [] then
            (if ParseCIDR_ok ext (VMNetworkCIDR pod)
             then (None, qemuArg\<lparr>arg_Value := arg_Value qemuArg @ '',net='' @ VMNetworkCIDR pod\<rparr>)
             else (Some (Error (''Failed parsing CIDR '' @ VMNetworkCIDR pod)), qemuArg))
          else (None, qemuArg\<lparr>arg_Value := arg_Value qemuArg @ '',net='' @ DefaultVMCIDR ext\<rparr>))"

definition GetResolvConfDetailsFromPod ::
  "externals \<Rightarrow> (error + string list \<times> string list) \<times> LogEntry list" where
  "GetResolvConfDetailsFromPod ext =
     (case ReadFile ext (resolvConf ext) of
        Inl err \<Rightarrow> (Inl (Error err), [])
      | Inr b \<Rightarrow>
          (case ParseNameservers ext b of
             Inl err \<Rightarrow> (Inl (Error err), [])
           | Inr nameservers \<Rightarrow>
               (case ParseSearchDomains ext b of
                  Inl err \<Rightarrow> (Inl (Error err), [])
                | Inr searchDomains \<Rightarrow>
                    (Inr (nameservers, searchDomains),
                     [Infof (''Found nameservers in '' @ resolvConf ext @ '': '' @
                        strings_Join nameservers '' ''),
                      Infof (''Found search domains in '' @ resolvConf ext @ '': '' @
                        strings_Join searchDomains '' '')]))))"

definition configDNSSearchName ::
  "externals \<Rightarrow> Arg \<Rightarrow> error option \<times> Arg \<times> LogEntry list" where
  "configDNSSearchName ext qemuArg =
     (case GetResolvConfDetailsFromPod ext of
        (Inl err, logs) \<Rightarrow> (Some err, qemuArg, logs)
      | (Inr (nameservers, dnsDoms), logs) \<Rightarrow>
          (None,
           foldl (\<lambda>a dom. a\<lparr>arg_Value := arg_Value a @ '',dnssearch='' @ dom\<rparr>) qemuArg dnsDoms,
           logs))"

definition createSlirpNetwork ::
  "externals \<Rightarrow> Interface \<Rightarrow> Network \<Rightarrow> Domain \<Rightarrow> error option \<times> Domain \<times> LogEntry list" where
  "createSlirpNetwork ext iface network domain =
     (case configVMCIDR ext \<lparr>arg_Value = ''user,id='' @ if_Name iface\<rparr> network of
        (Some err, qemuArg) \<Rightarrow> (Some err, domain, [])
      | (None, qemuArg) \<Rightarrow>
          (case configDNSSearchName ext qemuArg of
             (Some err, qemuArg', logs) \<Rightarrow> (Some err, domain, logs)
           | (None, qemuArg', logs) \<Rightarrow>
               (case configPortForward qemuArg' iface of
                  (Some err, qemuArg'') \<Rightarrow> (Some err, domain, logs)
                | (None, qemuArg'') \<Rightarrow>
                    (case QEMUCmd domain of
                       None \<Rightarrow> (Some nilDereference, domain, logs)
                     | Some cmd \<Rightarrow>
                         (None,
                          domain\<lparr>QEMUCmd :=
                            Some (cmd\<lparr>QEMUArg := (QEMUArg cmd @ [\<lparr>arg_Value = ''-netdev''\<rparr>]) @ [qemuArg'']\<rparr>)\<rparr>,
                          logs)))))"

subsection \<open>The name of an interface inside the pod\<close>

definition isSecondaryMultusNetwork :: "Network \<Rightarrow> bool" where
  "isSecondaryMultusNetwork net =
     (case Multus net of None \<Rightarrow> False | Some m \<Rightarrow> \<not> Default m)"

fun findMultusIndex_loop :: "Network list \<Rightarrow> Network \<Rightarrow> int \<Rightarrow> int" where
  "findMultusIndex_loop [] networkToFind idxMultus = - 1"
| "findMultusIndex_loop (network # networks) networkToFind idxMultus =
     (if isSecondaryMultusNetwork network then
        (if net_Name network = net_Name networkToFind then idxMultus + 1
         else findMultusIndex_loop networks networkToFind (idxMultus + 1))
      else findMultusIndex_loop networks networkToFind idxMultus)"

definition findMultusIndex :: "VirtualMachineInstance \<Rightarrow> Network \<Rightarrow> int" where
  "findMultusIndex vmi networkToFind = findMultusIndex_loop (Networks vmi) networkToFind 0"

definition ComposePodInterfaceName ::
  "VirtualMachineInstance \<Rightarrow> Network \<Rightarrow> error + string" where
  "ComposePodInterfaceName vmi network =
     (if isSecondaryMultusNetwork network then
        (let multusIndex = findMultusIndex vmi network in
         if multusIndex = - 1
         then Inl (Error (''Network name '' @ net_Name network @ '' not found''))
         else Inr (''net'' @ fmt_d_int multusIndex))
      else Inr PrimaryPodInterfaceName)"

text \<open>The result is a pointer: \<open>None\<close> is the nil of the source.\<close>

definition FindInterfaceByNetworkName ::
  "VirtualMachineInstance \<Rightarrow> Network \<Rightarrow> Interface option" where
  "FindInterfaceByNetworkName vmi network =
     find (\<lambda>iface. if_Name iface = net_Name network) (Interfaces vmi)"

text \<open>
  \<^verbatim>\<open>iface.Name\<close> is read from the pointer that \<^verbatim>\<open>FindInterfaceByNetworkName\<close> returns,
  without a check: on nil the Go run time panics.
\<close>

fun getPodInterfaceName_loop ::
  "VirtualMachineInstance \<Rightarrow> Network list \<Rightarrow> string \<Rightarrow> error + string" where
  "getPodInterfaceName_loop vmi [] ifaceName =
     Inl (Error (''Interface '' @ ifaceName @ '' not found''))"
| "getPodInterfaceName_loop vmi (network # networks) ifaceName =
     (if Pod network = None \<and> Multus network = None
      then getPodInterfaceName_loop vmi networks ifaceName
      else (case FindInterfaceByNetworkName vmi network of
              None \<Rightarrow> Inl nilDereference
            | Some iface \<Rightarrow>
                if if_Name iface = ifaceName then ComposePodInterfaceName vmi network
                else getPodInterfaceName_loop vmi networks ifaceName))"

definition getPodInterfaceName :: "VirtualMachineInstance \<Rightarrow> string \<Rightarrow> error + string" where
  "getPodInterfaceName vmi ifaceName = getPodInterfaceName_loop vmi (Networks vmi) ifaceName"

subsection \<open>The socket of a vhost-user interface\<close>

fun getVhostuserInfo_loop :: "InterfaceData list \<Rightarrow> string \<Rightarrow> error + string \<times> string" where
  "getVhostuserInfo_loop [] ifaceName =
     Inl (Error (''Unable to get vhostuser interface info for '' @ ifaceName))"
| "getVhostuserInfo_loop (iface # ifaces) ifaceName =
     (if DeviceType iface = DeviceInfoTypeVHostUser \<and>
         last (strings_Split (ns_Name (NetworkStatus iface)) CHR ''/'') = ifaceName
      then (case ns_DeviceInfo (NetworkStatus iface) of
              None \<Rightarrow> Inl nilDereference
            | Some info \<Rightarrow>
                (case VhostUser info of
                   None \<Rightarrow> Inl nilDereference
                 | Some dev \<Rightarrow> Inr (vhost_Path dev, vhost_Mode dev)))
      else getVhostuserInfo_loop ifaces ifaceName)"

definition getVhostuserInfo :: "string \<Rightarrow> ConverterContext \<Rightarrow> error + string \<times> string" where
  "getVhostuserInfo ifaceName c =
     (case PodNetInterfaces c of
        None \<Rightarrow> Inl (Error ''PodNetInterfaces cannot be nil for vhostuser interface'')
      | Some resp \<Rightarrow> getVhostuserInfo_loop (pni_Interface resp) ifaceName)"

subsection \<open>The dispatcher\<close>

text \<open>
  The body of the loop of \<^verbatim>\<open>createDomainInterfaces\<close> is cut in two: the record before
  the dispatch on the binding (model, alias, driver, PCI address), and the dispatch. Each
  part returns the log lines it wrote; the dispatch also returns the domain, which user-mode
  networking changes.
\<close>

definition createDomainInterfaces_base ::
  "externals \<Rightarrow> VirtualMachineInstance \<Rightarrow> ConverterContext \<Rightarrow> bool \<Rightarrow> Interface \<Rightarrow>
   (error + DomainInterface) \<times> LogEntry list" where
  "createDomainInterfaces_base ext vmi c virtioNetProhibited iface =
     (case getInterfaceType iface of
        (ifaceType, logs) \<Rightarrow>
          (let domainIface =
                 \<lparr>di_Type = [],
                  di_Model = Some \<lparr>model_Type = translateModel ext c ifaceType\<rparr>,
                  di_Alias = Some (NewUserDefinedAlias (if_Name iface)),
                  di_Driver = None, di_Address = None, di_BootOrder = None, di_Rom = None,
                  di_Source = \<lparr>src_Type = [], src_Path = [], src_Mode = []\<rparr>,
                  di_Target = None\<rparr>;
               virtioNetMQRequested =
                 (case NetworkInterfaceMultiQueue vmi of None \<Rightarrow> False | Some mq \<Rightarrow> mq)
           in if ifaceType = ''virtio'' \<and> virtioNetProhibited
              then (Inl (Error ''In-kernel virtio-net device emulation '/dev/vhost-net' not present''),
                    logs)
              else
                (case (if ifaceType = ''virtio'' \<and> virtioNetMQRequested
                       then (case CalculateNetworkQueues ext vmi of
                               (queueCount, logs') \<Rightarrow>
                                 (domainIface\<lparr>di_Driver :=
                                    Some \<lparr>drv_Name = ''vhost'', Queues = Some (unat queueCount),
                                          RxQueueSize = None, TxQueueSize = None\<rparr>\<rparr>,
                                  logs'))
                       else (domainIface, [])) of
                   (domainIface', logs') \<Rightarrow>
                     if if_PciAddress iface \<noteq> [] then
                       (case NewPciAddressField ext (if_PciAddress iface) of
                          Inl err \<Rightarrow>
                            (Inl (Error (''failed to configure interface '' @ if_Name iface @
                               '': '' @ err)),
                             logs @ logs')
                        | Inr addr \<Rightarrow>
                            (Inr (domainIface'\<lparr>di_Address := Some addr\<rparr>), logs @ logs'))
                     else (Inr domainIface', logs @ logs'))))"

definition createDomainInterfaces_binding ::
  "externals \<Rightarrow> VirtualMachineInstance \<Rightarrow> ConverterContext \<Rightarrow> Interface \<Rightarrow> Network \<Rightarrow>
   DomainInterface \<Rightarrow> Domain \<Rightarrow> (error + DomainInterface) \<times> Domain \<times> LogEntry list" where
  "createDomainInterfaces_binding ext vmi c iface net domainIface domain =
     (if Bridge iface \<or> Masquerade iface then
        (case if_BootOrder iface of
           Some order \<Rightarrow>
             (Inr (domainIface\<lparr>di_Type := ''ethernet'', di_BootOrder := Some \<lparr>Order = order\<rparr>\<rparr>),
              domain, [])
         | None \<Rightarrow>
             (Inr (domainIface\<lparr>di_Type := ''ethernet'', di_Rom := Some \<lparr>Enabled = ''no''\<rparr>\<rparr>),
              domain, []))
      else if Slirp iface then
        (case createSlirpNetwork ext iface net (initializeQEMUCmdAndQEMUArg domain) of
           (Some err, domain', logs) \<Rightarrow> (Inl err, domain', logs)
         | (None, domain', logs) \<Rightarrow> (Inr (domainIface\<lparr>di_Type := ''user''\<rparr>), domain', logs))
      else if Macvtap iface then
        (if Multus net = None
         then (Inl (Error (''macvtap interface '' @ if_Name iface @ '' requires Multus meta-cni'')),
               domain, [])
         else
           (case if_BootOrder iface of
              Some order \<Rightarrow>
                (Inr (domainIface\<lparr>di_Type := ''ethernet'', di_BootOrder := Some \<lparr>Order = order\<rparr>\<rparr>),
                 domain, [])
            | None \<Rightarrow>
                (Inr (domainIface\<lparr>di_Type := ''ethernet'', di_Rom := Some \<lparr>Enabled = ''no''\<rparr>\<rparr>),
                 domain, [])))
      else if Vhostuser iface then
        (case getPodInterfaceName vmi (if_Name iface) of
           Inl (Panic p) \<Rightarrow> (Inl (Panic p), domain, [])
         | r \<Rightarrow>
             (case (case r of
                      Inr name \<Rightarrow> (name, [])
                    | Inl _ \<Rightarrow>
                        ([], [Errorf (''Failed to get NIC for vhostuser interface: '' @
                                if_Name iface)])) of
                (podInterfaceName, logs) \<Rightarrow>
                  (case getVhostuserInfo podInterfaceName c of
                     Inl (Panic p) \<Rightarrow> (Inl (Panic p), domain, logs)
                   | Inl (Error err) \<Rightarrow>
                       (Inl (Error err), domain,
                        logs @ [Errorf (''Failed to get vhostuser interface info: '' @ err)])
                   | Inr (vhostPath, vhostMode) \<Rightarrow>
                       (let vhostPathParts = strings_Split vhostPath CHR ''/'';
                            vhostDevice = last vhostPathParts;
                            vhostPath' = (if length vhostPathParts = 1
                                          then VhostuserSocketDir ext @ vhostPath
                                          else vhostPath)
                        in (Inr (domainIface
                                  \<lparr>di_Type := ''vhostuser'',
                                   di_Source := \<lparr>src_Type = ''unix'', src_Path = vhostPath',
                                                 src_Mode = vhostMode\<rparr>,
                                   di_Target := Some \<lparr>Device = vhostDevice\<rparr>,
                                   di_Driver := Some \<lparr>drv_Name = [], Queues = None,
                                                       RxQueueSize = Some 1024,
                                                       TxQueueSize = Some 1024\<rparr>\<rparr>),
                            domain, logs)))))
      else (Inr domainIface, domain, []))"

text \<open>
  One turn of the loop: \<open>Inr None\<close> is the \<^verbatim>\<open>continue\<close> of an SR-IOV interface,
  \<open>Inr (Some r)\<close> the record that is appended.
\<close>

definition createDomainInterfaces_iface ::
  "externals \<Rightarrow> VirtualMachineInstance \<Rightarrow> ConverterContext \<Rightarrow> bool \<Rightarrow> (string \<rightharpoonup> Network) \<Rightarrow>
   Interface \<Rightarrow> Domain \<Rightarrow> (error + DomainInterface option) \<times> Domain \<times> LogEntry list" where
  "createDomainInterfaces_iface ext vmi c virtioNetProhibited networks iface domain =
     (case networks (if_Name iface) of
        None \<Rightarrow> (Inl (Error (''failed to find network '' @ if_Name iface)), domain, [])
      | Some net \<Rightarrow>
          if SRIOV iface then (Inr None, domain, [])
          else
            (case createDomainInterfaces_base ext vmi c virtioNetProhibited iface of
               (Inl err, logs) \<Rightarrow> (Inl err, domain, logs)
             | (Inr domainIface, logs) \<Rightarrow>
                 (case createDomainInterfaces_binding ext vmi c iface net domainIface domain of
                    (Inl err, domain', logs') \<Rightarrow> (Inl err, domain', logs @ logs')
                  | (Inr domainIface', domain', logs') \<Rightarrow>
                      (Inr (Some domainIface'), domain', logs @ logs'))))"

fun createDomainInterfaces_loop ::
  "externals \<Rightarrow> VirtualMachineInstance \<Rightarrow> ConverterContext \<Rightarrow> bool \<Rightarrow> (string \<rightharpoonup> Network) \<Rightarrow>
   Interface list \<Rightarrow> DomainInterface list \<Rightarrow> Domain \<Rightarrow> LogEntry list \<Rightarrow>
   (error + DomainInterface list) \<times> Domain \<times> LogEntry list" where
  "createDomainInterfaces_loop ext vmi c virtioNetProhibited networks [] domainInterfaces domain logs =
     (Inr domainInterfaces, domain, logs)"
| "createDomainInterfaces_loop ext vmi c virtioNetProhibited networks (iface # ifaces)
     domainInterfaces domain logs =
     (case createDomainInterfaces_iface ext vmi c virtioNetProhibited networks iface domain of
        (Inl err, domain', logs') \<Rightarrow> (Inl err, domain', logs @ logs')
      | (Inr None, domain', logs') \<Rightarrow>
          createDomainInterfaces_loop ext vmi c virtioNetProhibited networks ifaces
            domainInterfaces domain' (logs @ logs')
      | (Inr (Some domainIface), domain', logs') \<Rightarrow>
          createDomainInterfaces_loop ext vmi c virtioNetProhibited networks ifaces
            (domainInterfaces @ [domainIface]) domain' (logs @ logs'))"

text \<open>
  The result, the domain as the call leaves it, and the log lines of the call. An error
  comes with no list (the \<^verbatim>\<open>nil\<close> of the source).
\<close>

definition createDomainInterfaces ::
  "externals \<Rightarrow> VirtualMachineInstance \<Rightarrow> Domain \<Rightarrow> ConverterContext \<Rightarrow> bool \<Rightarrow>
   (error + DomainInterface list) \<times> Domain \<times> LogEntry list" where
  "createDomainInterfaces ext vmi domain c virtioNetProhibited =
     (case validateNetworksTypes (Networks vmi) of
        Some err \<Rightarrow> (Inl err, domain, [])
      | None \<Rightarrow>
          createDomainInterfaces_loop ext vmi c virtioNetProhibited
            (indexNetworksByName (Networks vmi)) (Interfaces vmi) [] domain [])"

subsection \<open>Port forwards, path segments and arguments in the words of the specification\<close>

text \<open>
  The specification speaks of the pairs (protocol, port) of an interface, with TCP for an
  empty protocol, of their first occurrences in the order of the list, and of one clause
  for each. These definitions follow its words; the theorems compare them with
  \<open>configPortForward\<close>. \<open>portConfigKey\<close> is the key that the source stores for a pair.
\<close>

fun firstSeen :: "'a list \<Rightarrow> 'a list" where
  "firstSeen [] = []"
| "firstSeen (x # xs) = x # firstSeen (filter (\<lambda>y. y \<noteq> x) xs)"

definition forwardPair :: "Port \<Rightarrow> string \<times> 16 word" where
  "forwardPair p = (if port_Protocol p = [] then ''TCP'' else port_Protocol p, port_Port p)"

definition hostfwd :: "string \<times> 16 word \<Rightarrow> string" where
  "hostfwd f =
     '',hostfwd='' @ strings_ToLower (fst f) @ ''::'' @ fmt_d (unat (snd f)) @ ''-:'' @
     fmt_d (unat (snd f))"

definition portConfigKey :: "string \<times> 16 word \<Rightarrow> string" where
  "portConfigKey f = fst f @ ''-'' @ fmt_d (unat (snd f))"



subsection \<open>Example inputs\<close>

definition exampleInterface :: "string \<Rightarrow> Interface" where
  "exampleInterface n =
     \<lparr>if_Name = n, if_Model = [], if_PciAddress = [], if_BootOrder = None, if_Ports = [],
      Bridge = False, Slirp = False, Masquerade = False, SRIOV = False, Macvtap = False,
      Vhostuser = False\<rparr>"

definition exampleSlirpInterface :: Interface where
  "exampleSlirpInterface =
     (exampleInterface ''a'')
       \<lparr>Slirp := True,
        if_Ports := [\<lparr>port_Protocol = [], port_Port = 80\<rparr>,
                     \<lparr>port_Protocol = ''TCP'', port_Port = 80\<rparr>]\<rparr>"

definition examplePodNetwork :: "string \<Rightarrow> Network" where
  "examplePodNetwork n = \<lparr>net_Name = n, Pod = Some \<lparr>VMNetworkCIDR = []\<rparr>, Multus = None\<rparr>"

definition exampleMultusNetwork :: "string \<Rightarrow> bool \<Rightarrow> Network" where
  "exampleMultusNetwork n d =
     \<lparr>net_Name = n, Pod = None, Multus = Some \<lparr>NetworkName = n, Default = d\<rparr>\<rparr>"

definition exampleExternals :: externals where
  "exampleExternals =
     \<lparr>translateModel = (\<lambda>c m. m), multiQueueMaxQueues = 8,
      CalculateRequestedVCPUs = (\<lambda>vmi. 64),
      NewPciAddressField = (\<lambda>s. Inl ''invalid PCI address''),
      VhostuserSocketDir = ''/var/lib/cni/usrcni/'', DefaultVMCIDR = ''10.0.2.0/24'',
      ParseCIDR_ok = (\<lambda>s. True), resolvConf = ''/etc/resolv.conf'',
      ReadFile = (\<lambda>p. Inr []), ParseNameservers = (\<lambda>b. Inr []),
      ParseSearchDomains = (\<lambda>b. Inr [''cluster.local''])\<rparr>"

definition exampleVMI :: VirtualMachineInstance where
  "exampleVMI =
     \<lparr>Networks = [examplePodNetwork ''default'', exampleMultusNetwork ''red'' False,
                  exampleMultusNetwork ''mgmt'' True, exampleMultusNetwork ''blue'' False],
      Interfaces = [(exampleInterface ''default'')\<lparr>Masquerade := True\<rparr>,
                    (exampleInterface ''red'')\<lparr>Bridge := True\<rparr>,
                    (exampleInterface ''mgmt'')\<lparr>Bridge := True\<rparr>,
                    (exampleInterface ''blue'')\<lparr>Vhostuser := True\<rparr>],
      NetworkInterfaceMultiQueue = None\<rparr>"

definition exampleVMI_sriov :: VirtualMachineInstance where
  "exampleVMI_sriov =
     \<lparr>Networks = [examplePodNetwork ''default'', exampleMultusNetwork ''red'' False,
                  exampleMultusNetwork ''blue'' False],
      Interfaces = [(exampleInterface ''default'')\<lparr>Masquerade := True, if_Model := ''e1000''\<rparr>,
                    (exampleInterface ''red'')\<lparr>SRIOV := True\<rparr>,
                    (exampleInterface ''blue'')\<lparr>Bridge := True, if_Model := ''e1000'', if_BootOrder := Some 1\<rparr>],
      NetworkInterfaceMultiQueue = Some True\<rparr>"

definition exampleRecord :: "string \<Rightarrow> string \<Rightarrow> string \<Rightarrow> DomainInterface" where
  "exampleRecord ty m n =
     \<lparr>di_Type = ty, di_Model = Some \<lparr>model_Type = m\<rparr>, di_Alias = Some (NewUserDefinedAlias n),
      di_Driver = None, di_Address = None, di_BootOrder = None, di_Rom = None,
      di_Source = \<lparr>src_Type = [], src_Path = [], src_Mode = []\<rparr>, di_Target = None\<rparr>"

definition exampleContext :: ConverterContext where
  "exampleContext =
     \<lparr>PodNetInterfaces = Some
        \<lparr>pni_Interface =
           [\<lparr>DeviceType = ''vhost-user'',
             NetworkStatus = \<lparr>ns_Name = ''default/net2'',
               ns_DeviceInfo = Some \<lparr>VhostUser = Some \<lparr>vhost_Mode = ''server'',
                 vhost_Path = ''/var/run/vhu/vhu1.sock''\<rparr>\<rparr>\<rparr>\<rparr>]\<rparr>\<rparr>"


definition exampleVMI_macvtap :: VirtualMachineInstance where
  "exampleVMI_macvtap =
     \<lparr>Networks = [exampleMultusNetwork ''mgmt'' True],
      Interfaces = [(exampleInterface ''mgmt'')\<lparr>Macvtap := True\<rparr>],
      NetworkInterfaceMultiQueue = None\<rparr>"


section \<open>Properties\<close>

subsection \<open>Decimal numbers and the key of a port forward\<close>

lemma digit_inj: "n < 10 \<Longrightarrow> m < 10 \<Longrightarrow> digit n = digit m \<Longrightarrow> n = m"
  unfolding digit_def
  by (subst (asm) nth_eq_iff_index_eq) simp_all

lemma digit_in: "n < 10 \<Longrightarrow> digit n \<in> set ''0123456789''"
  unfolding digit_def by (rule nth_mem) simp

lemma digit_not_dash: "n < 10 \<Longrightarrow> CHR ''-'' \<noteq> digit n"
  using digit_in[of n] by auto

lemma fmt_d_no_dash: "CHR ''-'' \<notin> set (fmt_d n)"
proof (induction n rule: fmt_d.induct)
  case (1 n)
  show ?case
  proof (cases "n < 10")
    case True
    then show ?thesis by (simp add: fmt_d.simps[of n] digit_not_dash)
  next
    case False
    then show ?thesis using 1 by (simp add: fmt_d.simps[of n] digit_not_dash)
  qed
qed

lemma fmt_d_nonempty: "fmt_d n \<noteq> []"
  by (subst fmt_d.simps) simp

lemma fmt_d_inj: "fmt_d n = fmt_d m \<Longrightarrow> n = m"
proof (induction n arbitrary: m rule: fmt_d.induct)
  case (1 n)
  show ?case
  proof (cases "n < 10")
    case True
    then have n: "fmt_d n = [digit n]" by (simp add: fmt_d.simps[of n])
    show ?thesis
    proof (cases "m < 10")
      case True
      then have "fmt_d m = [digit m]" by (simp add: fmt_d.simps[of m])
      with n 1(2) have "digit n = digit m" by simp
      with True \<open>n < 10\<close> show ?thesis by (rule_tac digit_inj)
    next
      case False
      then have "fmt_d m = fmt_d (m div 10) @ [digit (m mod 10)]" by (simp add: fmt_d.simps[of m])
      with n 1(2) have "fmt_d (m div 10) = []" by simp
      then show ?thesis using fmt_d_nonempty by blast
    qed
  next
    case False
    then have n: "fmt_d n = fmt_d (n div 10) @ [digit (n mod 10)]" by (simp add: fmt_d.simps[of n])
    show ?thesis
    proof (cases "m < 10")
      case True
      then have "fmt_d m = [digit m]" by (simp add: fmt_d.simps[of m])
      with n 1(2) have "fmt_d (n div 10) = []" by simp
      then show ?thesis using fmt_d_nonempty by blast
    next
      case mf: False
      then have "fmt_d m = fmt_d (m div 10) @ [digit (m mod 10)]" by (simp add: fmt_d.simps[of m])
      with n 1(2) have a: "fmt_d (n div 10) = fmt_d (m div 10)" and b: "digit (n mod 10) = digit (m mod 10)" by simp_all
      from 1(1)[OF False a] have "n div 10 = m div 10" .
      moreover from b have "n mod 10 = m mod 10" by (intro digit_inj) simp_all
      ultimately show ?thesis by (metis div_mult_mod_eq)
    qed
  qed
qed

lemma split_last_sep:
  assumes "a @ c # x = b @ c # y" "c \<notin> set x" "c \<notin> set y"
  shows "a = b \<and> x = y"
  using assms
  by (auto simp: append_eq_append_conv2 Cons_eq_append_conv append_eq_Cons_conv)

lemma portConfigKey_inj: "portConfigKey f = portConfigKey g \<Longrightarrow> f = g"
  unfolding portConfigKey_def
  using split_last_sep[of "fst f" "CHR ''-''" "fmt_d (unat (snd f))" "fst g" "fmt_d (unat (snd g))"] fmt_d_no_dash
  by (auto simp: prod_eq_iff dest!: fmt_d_inj intro: unsigned_word_eqI)

lemma firstSeen_set: "set (firstSeen xs) = set xs"
  by (induction xs rule: firstSeen.induct) auto

lemma firstSeen_distinct: "distinct (firstSeen xs)"
  by (induction xs rule: firstSeen.induct) (auto simp: firstSeen_set)

lemma configPortForward_loop_ok:
  "0 \<notin> port_Port ` set ports \<Longrightarrow>
   configPortForward_loop ports (portConfigKey ` A) qemuArg =
     (None, qemuArg\<lparr>arg_Value := arg_Value qemuArg @
        concat (map hostfwd (firstSeen (filter (\<lambda>f. f \<notin> A) (map forwardPair ports))))\<rparr>)"
proof (induction ports arbitrary: A qemuArg)
  case Nil
  then show ?case by simp
next
  case (Cons p ports)
  let ?f = "forwardPair p"
  have key: "(if port_Protocol p = [] then DefaultProtocol else port_Protocol p) @ ''-'' @
      fmt_d (unat (port_Port p)) = portConfigKey ?f"
    by (simp add: portConfigKey_def forwardPair_def DefaultProtocol_def)
  have mem: "portConfigKey ?f \<in> portConfigKey ` A \<longleftrightarrow> ?f \<in> A"
    using portConfigKey_inj by blast
  have nz: "port_Port p \<noteq> 0" "0 \<notin> port_Port ` set ports" using Cons.prems by auto
  show ?case
  proof (cases "?f \<in> A")
    case True
    then show ?thesis using Cons.IH[OF nz(2), of A qemuArg] nz(1) mem
      by (simp add: Let_def key del: append.simps)
  next
    case False
    have flt: "filter (\<lambda>y. y \<noteq> ?f) (filter (\<lambda>f. f \<notin> A) (map forwardPair ports)) =
               filter (\<lambda>f. f \<notin> insert ?f A) (map forwardPair ports)"
      by (induction ports) auto
    have ins: "insert (portConfigKey ?f) (portConfigKey ` A) = portConfigKey ` (insert ?f A)" by simp
    have hf: "'',hostfwd='' @ strings_ToLower (if port_Protocol p = [] then DefaultProtocol else port_Protocol p) @ ''::'' @
       fmt_d (unat (port_Port p)) @ ''-:'' @ fmt_d (unat (port_Port p)) = hostfwd ?f"
      by (simp add: hostfwd_def forwardPair_def DefaultProtocol_def)
    have step: "configPortForward_loop (p # ports) (portConfigKey ` A) qemuArg =
        configPortForward_loop ports (portConfigKey ` (insert ?f A))
          (qemuArg\<lparr>arg_Value := arg_Value qemuArg @ hostfwd ?f\<rparr>)"
      unfolding configPortForward_loop.simps Let_def key hf ins
      using False nz(1) mem by simp
    have rhs: "firstSeen (filter (\<lambda>f. f \<notin> A) (map forwardPair (p # ports))) =
        ?f # firstSeen (filter (\<lambda>f. f \<notin> insert ?f A) (map forwardPair ports))"
      using False by (simp only: list.map filter.simps if_True if_False simp_thms firstSeen.simps flt)
    show ?thesis
      unfolding step rhs Cons.IH[OF nz(2), of "insert ?f A"] by simp
  qed
qed

lemma configPortForward_loop_zero:
  "0 \<in> port_Port ` set ports \<Longrightarrow>
   fst (configPortForward_loop ports S qemuArg) = Some (Error ''Port must be configured'')"
  by (induction ports arbitrary: S qemuArg) (auto simp: Let_def)

subsection \<open>Port forwards\<close>

text \<open>
  C4. The port-forward builder fails with \<open>Port must be configured\<close> exactly when a
  forwarded port is 0. Otherwise it appends to the argument, for the pairs (protocol, port)
  of the interface with an empty protocol read as TCP, one clause
  \<open>,hostfwd=<lowercase protocol>::<port>-:<port>\<close> for each distinct pair, in the order in
  which the pairs are first seen.
\<close>

theorem configPortForward_first_seen:
  "fst (configPortForward qemuArg iface) =
     (if 0 \<in> port_Port ` set (if_Ports iface) then Some (Error ''Port must be configured'') else None) \<and>
   (0 \<notin> port_Port ` set (if_Ports iface) \<longrightarrow>
      arg_Value (snd (configPortForward qemuArg iface)) =
        arg_Value qemuArg @ concat (map hostfwd (firstSeen (map forwardPair (if_Ports iface))))) \<and>
   distinct (firstSeen (map forwardPair (if_Ports iface))) \<and>
   set (firstSeen (map forwardPair (if_Ports iface))) = forwardPair ` set (if_Ports iface)"
  using configPortForward_loop_ok[of "if_Ports iface" "{}" qemuArg]
    configPortForward_loop_zero[of "if_Ports iface" "{}" qemuArg]
  by (simp add: configPortForward_def firstSeen_distinct firstSeen_set)

theorem configPortForward_first_seen_witness:
  "0 \<notin> port_Port ` set (if_Ports exampleSlirpInterface) \<and>
   configPortForward \<lparr>arg_Value = ''user,id=a''\<rparr> exampleSlirpInterface =
     (None, \<lparr>arg_Value = ''user,id=a,hostfwd=tcp::80-:80''\<rparr>) \<and>
   fst (configPortForward \<lparr>arg_Value = ''user,id=a''\<rparr>
          (exampleSlirpInterface\<lparr>if_Ports := [\<lparr>port_Protocol = ''UDP'', port_Port = 53\<rparr>,
                                                   \<lparr>port_Protocol = ''TCP'', port_Port = 0\<rparr>]\<rparr>)) =
     Some (Error ''Port must be configured'')"
  using configPortForward_first_seen[of "\<lparr>arg_Value = ''user,id=a''\<rparr>" exampleSlirpInterface]
    configPortForward_first_seen[of "\<lparr>arg_Value = ''user,id=a''\<rparr>"
      "exampleSlirpInterface\<lparr>if_Ports := [\<lparr>port_Protocol = ''UDP'', port_Port = 53\<rparr>,
                                               \<lparr>port_Protocol = ''TCP'', port_Port = 0\<rparr>]\<rparr>"]
  by (simp add: exampleSlirpInterface_def exampleInterface_def forwardPair_def hostfwd_def
      fmt_d.simps digit_def strings_ToLower_def toLowerChar_def prod_eq_iff)

subsection \<open>The name of an interface inside the pod\<close>

lemma fmt_d_int_nat: "0 \<le> i \<Longrightarrow> fmt_d_int i = fmt_d (nat i)"
  by (simp add: fmt_d_int_def)

lemma findMultusIndex_loop_position:
  "i < length nets \<Longrightarrow> isSecondaryMultusNetwork (nets ! i) \<Longrightarrow>
   distinct (map net_Name (filter isSecondaryMultusNetwork nets)) \<Longrightarrow>
   findMultusIndex_loop nets (nets ! i) k =
     k + int (length (filter isSecondaryMultusNetwork (take (Suc i) nets)))"
proof (induction nets arbitrary: i k)
  case Nil
  then show ?case by simp
next
  case (Cons n ns)
  show ?case
  proof (cases i)
    case 0
    then show ?thesis using Cons.prems by simp
  next
    case (Suc j)
    then have j: "j < length ns" "isSecondaryMultusNetwork (ns ! j)"
      using Cons.prems by simp_all
    have d: "distinct (map net_Name (filter isSecondaryMultusNetwork ns))"
      using Cons.prems(3) by (simp split: if_splits)
    show ?thesis
    proof (cases "isSecondaryMultusNetwork n")
      case True
      have "ns ! j \<in> set (filter isSecondaryMultusNetwork ns)" using j by simp
      then have "net_Name n \<noteq> net_Name (ns ! j)"
        using Cons.prems(3) True by (auto simp: image_iff)
      then show ?thesis using True Suc Cons.IH[OF j d, of "k + 1"] by simp
    next
      case False
      then show ?thesis using Suc Cons.IH[OF j d, of k] by simp
    qed
  qed
qed

lemma ComposePodInterfaceName_declared_position:
  assumes "i < length (Networks vmi)"
    and "distinct (map net_Name (filter isSecondaryMultusNetwork (Networks vmi)))"
  shows "ComposePodInterfaceName vmi (Networks vmi ! i) =
    Inr (if isSecondaryMultusNetwork (Networks vmi ! i)
         then ''net'' @ fmt_d (length (filter isSecondaryMultusNetwork (take (Suc i) (Networks vmi))))
         else ''eth0'')"
proof (cases "isSecondaryMultusNetwork (Networks vmi ! i)")
  case True
  have "findMultusIndex vmi (Networks vmi ! i) =
      int (length (filter isSecondaryMultusNetwork (take (Suc i) (Networks vmi))))"
    unfolding findMultusIndex_def
    using findMultusIndex_loop_position[OF assms(1) True assms(2), of 0] by simp
  then show ?thesis using True
    by (simp add: ComposePodInterfaceName_def fmt_d_int_nat)
next
  case False
  then show ?thesis by (simp add: ComposePodInterfaceName_def PrimaryPodInterfaceName_def)
qed

text \<open>
  The lookup by interface name: when every network with a source that is declared before
  the interface's network has an interface of its own name, \<open>getPodInterfaceName\<close> returns
  what \<open>ComposePodInterfaceName\<close> composes for the interface's network.
\<close>

lemma FindInterfaceByNetworkName_Some:
  "net_Name network \<in> if_Name ` set (Interfaces vmi) \<Longrightarrow>
   \<exists>iface. FindInterfaceByNetworkName vmi network = Some iface \<and> if_Name iface = net_Name network"
  unfolding FindInterfaceByNetworkName_def
  by (cases "find (\<lambda>iface. if_Name iface = net_Name network) (Interfaces vmi)")
     (auto simp: find_None_iff find_Some_iff)

lemma getPodInterfaceName_loop_reaches:
  "i < length nets \<Longrightarrow> net_Name (nets ! i) = ifaceName \<Longrightarrow>
   Pod (nets ! i) \<noteq> None \<or> Multus (nets ! i) \<noteq> None \<Longrightarrow>
   ifaceName \<in> if_Name ` set (Interfaces vmi) \<Longrightarrow>
   (\<And>j. j < i \<Longrightarrow> (Pod (nets ! j) = None \<and> Multus (nets ! j) = None) \<or>
       (net_Name (nets ! j) \<in> if_Name ` set (Interfaces vmi) \<and> net_Name (nets ! j) \<noteq> ifaceName)) \<Longrightarrow>
   getPodInterfaceName_loop vmi nets ifaceName = ComposePodInterfaceName vmi (nets ! i)"
proof (induction nets arbitrary: i)
  case Nil
  then show ?case by simp
next
  case (Cons n ns)
  show ?case
  proof (cases i)
    case 0
    then show ?thesis using Cons.prems FindInterfaceByNetworkName_Some[of n vmi] by auto
  next
    case (Suc j)
    have tl: "getPodInterfaceName_loop vmi ns ifaceName = ComposePodInterfaceName vmi (ns ! j)"
    proof (rule Cons.IH)
      show "j < length ns" using Cons.prems(1) Suc by simp
      show "net_Name (ns ! j) = ifaceName" using Cons.prems(2) Suc by simp
      show "Pod (ns ! j) \<noteq> None \<or> Multus (ns ! j) \<noteq> None" using Cons.prems(3) Suc by simp
      show "ifaceName \<in> if_Name ` set (Interfaces vmi)" by (rule Cons.prems(4))
      fix k assume "k < j"
      then show "(Pod (ns ! k) = None \<and> Multus (ns ! k) = None) \<or>
         (net_Name (ns ! k) \<in> if_Name ` set (Interfaces vmi) \<and> net_Name (ns ! k) \<noteq> ifaceName)"
        using Cons.prems(5)[of "Suc k"] Suc by simp
    qed
    have hd: "(Pod n = None \<and> Multus n = None) \<or>
         (net_Name n \<in> if_Name ` set (Interfaces vmi) \<and> net_Name n \<noteq> ifaceName)"
      using Cons.prems(5)[of 0] Suc by simp
    then show ?thesis
    proof
      assume "Pod n = None \<and> Multus n = None"
      then show ?thesis using tl Suc by simp
    next
      assume a: "net_Name n \<in> if_Name ` set (Interfaces vmi) \<and> net_Name n \<noteq> ifaceName"
      then obtain iface where "FindInterfaceByNetworkName vmi n = Some iface" "if_Name iface = net_Name n"
        using FindInterfaceByNetworkName_Some[of n vmi] by blast
      then show ?thesis using tl Suc a by simp
    qed
  qed
qed

lemma getPodInterfaceName_reaches:
  assumes "i < length (Networks vmi)" and "net_Name (Networks vmi ! i) = ifaceName"
    and "Pod (Networks vmi ! i) \<noteq> None \<or> Multus (Networks vmi ! i) \<noteq> None"
    and "ifaceName \<in> if_Name ` set (Interfaces vmi)"
    and "\<And>j. j < i \<Longrightarrow> (Pod (Networks vmi ! j) = None \<and> Multus (Networks vmi ! j) = None) \<or>
       (net_Name (Networks vmi ! j) \<in> if_Name ` set (Interfaces vmi) \<and>
        net_Name (Networks vmi ! j) \<noteq> ifaceName)"
  shows "getPodInterfaceName vmi ifaceName = ComposePodInterfaceName vmi (Networks vmi ! i)"
  unfolding getPodInterfaceName_def
  using assms by (rule getPodInterfaceName_loop_reaches)

text \<open>
  C2. The name composed for a declared network is a function of the spec and the network.
  For a secondary Multus network (Multus, not the default) it is \<open>net<k>\<close>, where \<open>k\<close>
  counts the secondary Multus networks up to and including this one in the order of
  declaration; for every other network it is \<open>eth0\<close>, wherever the network stands. The
  networks are found by name, so the names of the secondary networks are taken to be
  different, as the data model has the names of all networks of a spec. The lookup by
  the name of the interface returns this name whenever it reaches the network of the
  interface: the network has a source and an interface, and every network with a source
  that is declared before it has an interface of its own name.
\<close>

theorem ComposePodInterfaceName_position:
  assumes "i < length (Networks vmi)"
    and "distinct (map net_Name (filter isSecondaryMultusNetwork (Networks vmi)))"
  shows "ComposePodInterfaceName vmi (Networks vmi ! i) =
           Inr (if isSecondaryMultusNetwork (Networks vmi ! i)
                then ''net'' @ fmt_d (length (filter isSecondaryMultusNetwork
                                        (take (Suc i) (Networks vmi))))
                else ''eth0'') \<and>
         ((Pod (Networks vmi ! i) \<noteq> None \<or> Multus (Networks vmi ! i) \<noteq> None) \<and>
          net_Name (Networks vmi ! i) \<in> if_Name ` set (Interfaces vmi) \<and>
          (\<forall>j<i. (Pod (Networks vmi ! j) = None \<and> Multus (Networks vmi ! j) = None) \<or>
                  (net_Name (Networks vmi ! j) \<in> if_Name ` set (Interfaces vmi) \<and>
                   net_Name (Networks vmi ! j) \<noteq> net_Name (Networks vmi ! i))) \<longrightarrow>
          getPodInterfaceName vmi (net_Name (Networks vmi ! i)) =
            Inr (if isSecondaryMultusNetwork (Networks vmi ! i)
                 then ''net'' @ fmt_d (length (filter isSecondaryMultusNetwork
                                         (take (Suc i) (Networks vmi))))
                 else ''eth0''))"
proof (intro conjI impI)
  show c: "ComposePodInterfaceName vmi (Networks vmi ! i) =
           Inr (if isSecondaryMultusNetwork (Networks vmi ! i)
                then ''net'' @ fmt_d (length (filter isSecondaryMultusNetwork
                                        (take (Suc i) (Networks vmi))))
                else ''eth0'')"
    using assms by (rule ComposePodInterfaceName_declared_position)
  assume h: "(Pod (Networks vmi ! i) \<noteq> None \<or> Multus (Networks vmi ! i) \<noteq> None) \<and>
          net_Name (Networks vmi ! i) \<in> if_Name ` set (Interfaces vmi) \<and>
          (\<forall>j<i. (Pod (Networks vmi ! j) = None \<and> Multus (Networks vmi ! j) = None) \<or>
                  (net_Name (Networks vmi ! j) \<in> if_Name ` set (Interfaces vmi) \<and>
                   net_Name (Networks vmi ! j) \<noteq> net_Name (Networks vmi ! i)))"
  have "getPodInterfaceName vmi (net_Name (Networks vmi ! i)) =
      ComposePodInterfaceName vmi (Networks vmi ! i)"
    using assms(1) h by (intro getPodInterfaceName_reaches) auto
  then show "getPodInterfaceName vmi (net_Name (Networks vmi ! i)) =
            Inr (if isSecondaryMultusNetwork (Networks vmi ! i)
                 then ''net'' @ fmt_d (length (filter isSecondaryMultusNetwork
                                         (take (Suc i) (Networks vmi))))
                 else ''eth0'')"
    using c by simp
qed

theorem ComposePodInterfaceName_position_witness:
  "3 < length (Networks exampleVMI) \<and>
   distinct (map net_Name (filter isSecondaryMultusNetwork (Networks exampleVMI))) \<and>
   ComposePodInterfaceName exampleVMI (examplePodNetwork ''default'') = Inr ''eth0'' \<and>
   ComposePodInterfaceName exampleVMI (exampleMultusNetwork ''red'' False) = Inr ''net1'' \<and>
   ComposePodInterfaceName exampleVMI (exampleMultusNetwork ''mgmt'' True) = Inr ''eth0'' \<and>
   ComposePodInterfaceName exampleVMI (exampleMultusNetwork ''blue'' False) = Inr ''net2'' \<and>
   net_Name (Networks exampleVMI ! 3) = ''blue'' \<and>
   getPodInterfaceName exampleVMI ''blue'' = Inr ''net2''"
proof -
  have len: "3 < length (Networks exampleVMI)"
    by (simp add: exampleVMI_def)
  have dist: "distinct (map net_Name (filter isSecondaryMultusNetwork (Networks exampleVMI)))"
    by (simp add: exampleVMI_def exampleMultusNetwork_def examplePodNetwork_def
        isSecondaryMultusNetwork_def)
  have reach: "(Pod (Networks exampleVMI ! 3) \<noteq> None \<or> Multus (Networks exampleVMI ! 3) \<noteq> None) \<and>
      net_Name (Networks exampleVMI ! 3) \<in> if_Name ` set (Interfaces exampleVMI) \<and>
      (\<forall>j<3. (Pod (Networks exampleVMI ! j) = None \<and> Multus (Networks exampleVMI ! j) = None) \<or>
              (net_Name (Networks exampleVMI ! j) \<in> if_Name ` set (Interfaces exampleVMI) \<and>
               net_Name (Networks exampleVMI ! j) \<noteq> net_Name (Networks exampleVMI ! 3)))"
    by (simp add: exampleVMI_def exampleMultusNetwork_def examplePodNetwork_def
        exampleInterface_def numeral_3_eq_3 All_less_Suc)
  have blue: "getPodInterfaceName exampleVMI (net_Name (Networks exampleVMI ! 3)) =
      Inr (if isSecondaryMultusNetwork (Networks exampleVMI ! 3)
           then ''net'' @ fmt_d (length (filter isSecondaryMultusNetwork
                                   (take (Suc 3) (Networks exampleVMI))))
           else ''eth0'')"
    using ComposePodInterfaceName_position[OF len dist] reach by blast
  show ?thesis
    using len dist blue
      ComposePodInterfaceName_position[of 0 exampleVMI]
      ComposePodInterfaceName_position[of 1 exampleVMI]
      ComposePodInterfaceName_position[of 2 exampleVMI]
      ComposePodInterfaceName_position[of 3 exampleVMI]
    by (simp add: exampleVMI_def exampleMultusNetwork_def examplePodNetwork_def
        isSecondaryMultusNetwork_def fmt_d.simps digit_def)
qed

text \<open>
  C10. \<open>getPodInterfaceName\<close> reads the name of the interface that
  \<open>FindInterfaceByNetworkName\<close> returns without a check for nil. With a pod network
  \<open>default\<close> that no interface names, declared before the Multus network \<open>vhu\<close> of the
  interface \<open>vhu\<close>, the call ends in the nil dereference: it returns neither a name nor
  an error.
\<close>

theorem getPodInterfaceName_nil_dereference:
  "getPodInterfaceName
     \<lparr>Networks = [examplePodNetwork ''default'', exampleMultusNetwork ''vhu'' False],
      Interfaces = [(exampleInterface ''vhu'')\<lparr>Vhostuser := True\<rparr>],
      NetworkInterfaceMultiQueue = None\<rparr> ''vhu'' =
   Inl (Panic ''invalid memory address or nil pointer dereference'')"
  by (simp add: getPodInterfaceName_def FindInterfaceByNetworkName_def examplePodNetwork_def
      exampleMultusNetwork_def exampleInterface_def nilDereference_def)

subsection \<open>The records of a conversion\<close>

text \<open>The definitions that a run of the converter on an example unfolds.\<close>

lemmas converter_defs =
  createDomainInterfaces_def createDomainInterfaces_iface_def createDomainInterfaces_base_def
  createDomainInterfaces_binding_def getInterfaceType_def CalculateNetworkQueues_def
  indexNetworksByName_def exampleInterface_def examplePodNetwork_def exampleMultusNetwork_def
  exampleExternals_def exampleRecord_def fmt_d.simps digit_def

lemma binding_keeps_model_alias:
  "createDomainInterfaces_binding ext vmi c iface net domainIface domain = (Inr r, domain', logs) \<Longrightarrow>
   di_Alias r = di_Alias domainIface \<and> di_Model r = di_Model domainIface \<and>
   di_Address r = di_Address domainIface"
  unfolding createDomainInterfaces_binding_def Let_def
  by (auto split: if_splits option.splits prod.splits sum.splits error.splits)

lemma base_model_alias:
  "createDomainInterfaces_base ext vmi c virtioNetProhibited iface = (Inr domainIface, logs) \<Longrightarrow>
   di_Alias domainIface = Some (NewUserDefinedAlias (if_Name iface)) \<and>
   di_Model domainIface = Some \<lparr>model_Type = translateModel ext c (fst (getInterfaceType iface))\<rparr>"
  unfolding createDomainInterfaces_base_def Let_def
  by (auto split: if_splits option.splits prod.splits sum.splits)

lemma iface_continue:
  "createDomainInterfaces_iface ext vmi c virtioNetProhibited networks iface domain = (Inr None, domain', logs) \<Longrightarrow>
   SRIOV iface"
  unfolding createDomainInterfaces_iface_def
  by (auto split: if_splits option.splits prod.splits sum.splits)

lemma iface_record:
  "createDomainInterfaces_iface ext vmi c virtioNetProhibited networks iface domain = (Inr (Some r), domain', logs) \<Longrightarrow>
   \<not> SRIOV iface \<and> di_Alias r = Some (NewUserDefinedAlias (if_Name iface)) \<and>
   di_Model r = Some \<lparr>model_Type = translateModel ext c (fst (getInterfaceType iface))\<rparr>"
  unfolding createDomainInterfaces_iface_def
  by (auto split: if_splits option.splits prod.splits sum.splits
      dest!: binding_keeps_model_alias base_model_alias)

lemma loop_aliases:
  "createDomainInterfaces_loop ext vmi c virtioNetProhibited networks ifaces acc domain logs =
     (Inr rs, domain', logs') \<Longrightarrow>
   map di_Alias rs =
     map di_Alias acc @
     map (\<lambda>iface. Some (NewUserDefinedAlias (if_Name iface))) (filter (\<lambda>iface. \<not> SRIOV iface) ifaces)"
proof (induction ifaces arbitrary: acc domain logs)
  case Nil
  then show ?case by simp
next
  case (Cons iface ifaces)
  obtain res d1 l1 where step:
    "createDomainInterfaces_iface ext vmi c virtioNetProhibited networks iface domain = (res, d1, l1)"
    by (cases "createDomainInterfaces_iface ext vmi c virtioNetProhibited networks iface domain") auto
  show ?case
  proof (cases res)
    case (Inl e)
    then show ?thesis using Cons.prems step by simp
  next
    case (Inr ro)
    show ?thesis
    proof (cases ro)
      case None
      then have "SRIOV iface" using step Inr iface_continue by blast
      then show ?thesis using Cons.prems step Inr None Cons.IH[of acc d1 "logs @ l1"] by simp
    next
      case (Some r)
      then have "\<not> SRIOV iface" "di_Alias r = Some (NewUserDefinedAlias (if_Name iface))"
        using step Inr iface_record by blast+
      then show ?thesis using Cons.prems step Inr Some Cons.IH[of "acc @ [r]" d1 "logs @ l1"] by simp
    qed
  qed
qed

text \<open>
  C1. When \<open>createDomainInterfaces\<close> returns a list (the validation of the network types
  passed, every interface found its network and no step failed), the list has one record
  for each interface that is not bound to SR-IOV, in the order of the interfaces, and the
  alias of each record is the user-defined alias of the name of its interface.
\<close>

theorem createDomainInterfaces_one_record_per_interface:
  assumes "createDomainInterfaces ext vmi domain c virtioNetProhibited = (Inr rs, domain', logs)"
  shows "map di_Alias rs =
     map (\<lambda>iface. Some (NewUserDefinedAlias (if_Name iface)))
       (filter (\<lambda>iface. \<not> SRIOV iface) (Interfaces vmi)) \<and>
     length rs = length (filter (\<lambda>iface. \<not> SRIOV iface) (Interfaces vmi))"
  using assms loop_aliases[of ext vmi c virtioNetProhibited "indexNetworksByName (Networks vmi)"
      "Interfaces vmi" "[]" domain "[]" rs domain' logs]
  by (auto simp: createDomainInterfaces_def split: option.splits dest: map_eq_imp_length_eq)


theorem createDomainInterfaces_one_record_per_interface_witness:
  "createDomainInterfaces exampleExternals exampleVMI_sriov \<lparr>QEMUCmd = None\<rparr> \<lparr>PodNetInterfaces = None\<rparr> True =
     (Inr [(exampleRecord ''ethernet'' ''e1000'' ''default'')\<lparr>di_Rom := Some \<lparr>Enabled = ''no''\<rparr>\<rparr>,
           (exampleRecord ''ethernet'' ''e1000'' ''blue'')\<lparr>di_BootOrder := Some \<lparr>Order = 1\<rparr>\<rparr>],
      \<lparr>QEMUCmd = None\<rparr>, []) \<and>
   map di_Alias [(exampleRecord ''ethernet'' ''e1000'' ''default'')\<lparr>di_Rom := Some \<lparr>Enabled = ''no''\<rparr>\<rparr>,
           (exampleRecord ''ethernet'' ''e1000'' ''blue'')\<lparr>di_BootOrder := Some \<lparr>Order = 1\<rparr>\<rparr>] =
     [Some (NewUserDefinedAlias ''default''), Some (NewUserDefinedAlias ''blue'')]"
proof -
  have run: "createDomainInterfaces exampleExternals exampleVMI_sriov \<lparr>QEMUCmd = None\<rparr> \<lparr>PodNetInterfaces = None\<rparr> True =
     (Inr [(exampleRecord ''ethernet'' ''e1000'' ''default'')\<lparr>di_Rom := Some \<lparr>Enabled = ''no''\<rparr>\<rparr>,
           (exampleRecord ''ethernet'' ''e1000'' ''blue'')\<lparr>di_BootOrder := Some \<lparr>Order = 1\<rparr>\<rparr>],
      \<lparr>QEMUCmd = None\<rparr>, [])"
    by (simp add: converter_defs exampleVMI_sriov_def)
  show ?thesis
    using run createDomainInterfaces_one_record_per_interface[OF run]
    by (simp add: exampleVMI_sriov_def exampleInterface_def)
qed

lemmas slirp_defs =
  createSlirpNetwork_def configVMCIDR_def configDNSSearchName_def GetResolvConfDetailsFromPod_def
  configPortForward_def initializeQEMUCmdAndQEMUArg_def


lemma base_logs:
  "createDomainInterfaces_base ext vmi c virtioNetProhibited iface = (res, logs) \<Longrightarrow>
   \<exists>rest. logs = snd (getInterfaceType iface) @ rest"
  unfolding createDomainInterfaces_base_def Let_def
  by (auto split: if_splits option.splits prod.splits sum.splits)

lemma iface_logs:
  "createDomainInterfaces_iface ext vmi c virtioNetProhibited networks iface domain = (Inr (Some r), domain', logs) \<Longrightarrow>
   \<exists>rest. logs = snd (getInterfaceType iface) @ rest"
  unfolding createDomainInterfaces_iface_def
  by (auto split: if_splits option.splits prod.splits sum.splits dest!: base_logs)

subsection \<open>The effective model\<close>

text \<open>
  C6. For an interface bound to user-mode networking whose model is neither \<open>e1000\<close> nor
  \<open>rtl8139\<close> (the empty model and \<open>virtio\<close> among them) the effective model is \<open>e1000\<close>
  and one line is logged, which is no error; with one of the two models the model stays.
  For every other interface the effective model is the model of the interface when it is
  set and \<open>virtio\<close> when it is not. The record of the interface carries the effective
  model, passed through the model translator, and the log of the interface starts with
  the lines of this step.
\<close>

theorem getInterfaceType_effective_model:
  "getInterfaceType iface =
     (if Slirp iface \<and> if_Model iface \<noteq> ''e1000'' \<and> if_Model iface \<noteq> ''rtl8139''
      then (''e1000'',
            [Infof (''The network interface type of '' @ if_Name iface @
               '' was changed to e1000 due to unsupported interface type by qemu slirp network'')])
      else if Slirp iface then (if_Model iface, [])
      else if if_Model iface \<noteq> [] then (if_Model iface, [])
      else (''virtio'', [])) \<and>
   (createDomainInterfaces_iface ext vmi c virtioNetProhibited networks iface domain =
      (Inr (Some r), domain', logs) \<longrightarrow>
    di_Model r = Some \<lparr>model_Type = translateModel ext c (fst (getInterfaceType iface))\<rparr> \<and>
    (\<exists>rest. logs = snd (getInterfaceType iface) @ rest))"
  using iface_record[of ext vmi c virtioNetProhibited networks iface domain r domain' logs]
    iface_logs[of ext vmi c virtioNetProhibited networks iface domain r domain' logs]
  by (simp add: getInterfaceType_def)

theorem getInterfaceType_effective_model_witness:
  "createDomainInterfaces_iface exampleExternals exampleVMI exampleContext False
      (indexNetworksByName (Networks exampleVMI))
      ((exampleInterface ''default'')\<lparr>Slirp := True, if_Model := ''virtio''\<rparr>) \<lparr>QEMUCmd = None\<rparr> =
     (Inr (Some (exampleRecord ''user'' ''e1000'' ''default'')),
      \<lparr>QEMUCmd = Some \<lparr>QEMUArg =
         [\<lparr>arg_Value = ''-netdev''\<rparr>,
          \<lparr>arg_Value = ''user,id=default,net=10.0.2.0/24,dnssearch=cluster.local''\<rparr>]\<rparr>\<rparr>,
      [Infof ''The network interface type of default was changed to e1000 due to unsupported interface type by qemu slirp network'',
       Infof ''Found nameservers in /etc/resolv.conf: '',
       Infof ''Found search domains in /etc/resolv.conf: cluster.local'']) \<and>
   getInterfaceType ((exampleInterface ''default'')\<lparr>Slirp := True, if_Model := ''virtio''\<rparr>) =
     (''e1000'',
      [Infof ''The network interface type of default was changed to e1000 due to unsupported interface type by qemu slirp network'']) \<and>
   di_Model (exampleRecord ''user'' ''e1000'' ''default'') = Some \<lparr>model_Type = ''e1000''\<rparr>"
proof -
  have run: "createDomainInterfaces_iface exampleExternals exampleVMI exampleContext False
      (indexNetworksByName (Networks exampleVMI))
      ((exampleInterface ''default'')\<lparr>Slirp := True, if_Model := ''virtio''\<rparr>) \<lparr>QEMUCmd = None\<rparr> =
     (Inr (Some (exampleRecord ''user'' ''e1000'' ''default'')),
      \<lparr>QEMUCmd = Some \<lparr>QEMUArg =
         [\<lparr>arg_Value = ''-netdev''\<rparr>,
          \<lparr>arg_Value = ''user,id=default,net=10.0.2.0/24,dnssearch=cluster.local''\<rparr>]\<rparr>\<rparr>,
      [Infof ''The network interface type of default was changed to e1000 due to unsupported interface type by qemu slirp network'',
       Infof ''Found nameservers in /etc/resolv.conf: '',
       Infof ''Found search domains in /etc/resolv.conf: cluster.local''])"
    by (simp add: converter_defs slirp_defs exampleVMI_def)
  note inst = getInterfaceType_effective_model[of
        "(exampleInterface ''default'')\<lparr>Slirp := True, if_Model := ''virtio''\<rparr>"
        exampleExternals exampleVMI exampleContext False "indexNetworksByName (Networks exampleVMI)"
        "\<lparr>QEMUCmd = None\<rparr>" "exampleRecord ''user'' ''e1000'' ''default''"]
  have gi: "getInterfaceType ((exampleInterface ''default'')\<lparr>Slirp := True, if_Model := ''virtio''\<rparr>) =
     (''e1000'',
      [Infof ''The network interface type of default was changed to e1000 due to unsupported interface type by qemu slirp network''])"
    using inst[THEN conjunct1] by (simp add: exampleInterface_def)
  have dm: "di_Model (exampleRecord ''user'' ''e1000'' ''default'') =
      Some \<lparr>model_Type = translateModel exampleExternals exampleContext
        (fst (getInterfaceType ((exampleInterface ''default'')\<lparr>Slirp := True, if_Model := ''virtio''\<rparr>)))\<rparr>"
    using inst[THEN conjunct2, rule_format, OF run] by (rule conjunct1)
  have "di_Model (exampleRecord ''user'' ''e1000'' ''default'') = Some \<lparr>model_Type = ''e1000''\<rparr>"
    using dm unfolding gi by (simp add: exampleExternals_def)
  then show ?thesis
    by (intro conjI run gi)
qed

subsection \<open>The queues of a virtio interface\<close>







subsection \<open>Macvtap\<close>

text \<open>
  C7, as amended. For an interface whose dispatch takes the macvtap branch, the conversion
  fails with \<open>macvtap interface <name> requires Multus meta-cni\<close> when the network of
  the interface has no Multus source; with a Multus source, default or not, the record has
  the type \<open>ethernet\<close>, the boot order when the interface sets one, and the expansion ROM
  disabled when it sets none.
\<close>

theorem macvtap_requires_multus:
  assumes "Macvtap iface" and "\<not> Bridge iface" and "\<not> Masquerade iface" and "\<not> Slirp iface"
  shows "(Multus net = None \<longrightarrow>
            createDomainInterfaces_binding ext vmi c iface net domainIface domain =
              (Inl (Error (''macvtap interface '' @ if_Name iface @ '' requires Multus meta-cni'')),
               domain, [])) \<and>
         (Multus net \<noteq> None \<longrightarrow>
            (\<exists>r. createDomainInterfaces_binding ext vmi c iface net domainIface domain =
                   (Inr r, domain, []) \<and>
                 di_Type r = ''ethernet'' \<and>
                 (case if_BootOrder iface of
                    Some order \<Rightarrow> di_BootOrder r = Some \<lparr>Order = order\<rparr> \<and> di_Rom r = di_Rom domainIface
                  | None \<Rightarrow> di_Rom r = Some \<lparr>Enabled = ''no''\<rparr> \<and>
                      di_BootOrder r = di_BootOrder domainIface)))"
  using assms unfolding createDomainInterfaces_binding_def
  by (auto split: option.splits)

theorem macvtap_requires_multus_witness:
  "Macvtap ((exampleInterface ''mgmt'')\<lparr>Macvtap := True\<rparr>) \<and>
   Multus (examplePodNetwork ''mgmt'') = None \<and>
   createDomainInterfaces_binding exampleExternals exampleVMI exampleContext
     ((exampleInterface ''mgmt'')\<lparr>Macvtap := True\<rparr>) (examplePodNetwork ''mgmt'')
     (exampleRecord [] ''virtio'' ''mgmt'') \<lparr>QEMUCmd = None\<rparr> =
   (Inl (Error ''macvtap interface mgmt requires Multus meta-cni''), \<lparr>QEMUCmd = None\<rparr>, []) \<and>
   Multus (exampleMultusNetwork ''mgmt'' False) \<noteq> None \<and>
   createDomainInterfaces_binding exampleExternals exampleVMI exampleContext
     ((exampleInterface ''mgmt'')\<lparr>Macvtap := True\<rparr>) (exampleMultusNetwork ''mgmt'' False)
     (exampleRecord [] ''virtio'' ''mgmt'') \<lparr>QEMUCmd = None\<rparr> =
   (Inr ((exampleRecord ''ethernet'' ''virtio'' ''mgmt'')\<lparr>di_Rom := Some \<lparr>Enabled = ''no''\<rparr>\<rparr>),
    \<lparr>QEMUCmd = None\<rparr>, [])"
  using macvtap_requires_multus[of "(exampleInterface ''mgmt'')\<lparr>Macvtap := True\<rparr>"
      "examplePodNetwork ''mgmt''" exampleExternals exampleVMI exampleContext
      "exampleRecord [] ''virtio'' ''mgmt''" "\<lparr>QEMUCmd = None\<rparr>"]
    macvtap_requires_multus[of "(exampleInterface ''mgmt'')\<lparr>Macvtap := True\<rparr>"
      "exampleMultusNetwork ''mgmt'' False" exampleExternals exampleVMI exampleContext
      "exampleRecord [] ''virtio'' ''mgmt''" "\<lparr>QEMUCmd = None\<rparr>"]
  by (auto simp: exampleInterface_def examplePodNetwork_def exampleMultusNetwork_def
      exampleRecord_def createDomainInterfaces_binding_def)

text \<open>
  The claim as stated fails for a Multus network that is marked as default: it is no
  secondary network, and the macvtap interface on it is converted.
\<close>

theorem macvtap_default_multus_counterexample:
  "\<not> isSecondaryMultusNetwork (exampleMultusNetwork ''mgmt'' True) \<and>
   indexNetworksByName (Networks exampleVMI_macvtap) ''mgmt'' = Some (exampleMultusNetwork ''mgmt'' True) \<and>
   createDomainInterfaces exampleExternals exampleVMI_macvtap \<lparr>QEMUCmd = None\<rparr> exampleContext False =
     (Inr [(exampleRecord ''ethernet'' ''virtio'' ''mgmt'')\<lparr>di_Rom := Some \<lparr>Enabled = ''no''\<rparr>\<rparr>],
      \<lparr>QEMUCmd = None\<rparr>, [])"
  by (simp add: converter_defs exampleVMI_macvtap_def isSecondaryMultusNetwork_def)

subsection \<open>Vhost-user\<close>















subsection \<open>Errors and the domain\<close>

















text \<open>
  Inside \<open>createDomainInterfaces\<close> the error result of \<open>getPodInterfaceName\<close> does not
  arise: once the network types are validated and the interface has found its network in
  the index, the lookup returns a name or ends in the nil dereference.
\<close>

lemma findMultusIndex_loop_found:
  "\<exists>m \<in> set nets. isSecondaryMultusNetwork m \<and> net_Name m = net_Name n \<Longrightarrow> 0 \<le> k \<Longrightarrow>
   0 < findMultusIndex_loop nets n k"
proof (induction nets arbitrary: k)
  case Nil
  then show ?case by simp
next
  case (Cons a nets)
  show ?case
  proof (cases "isSecondaryMultusNetwork a \<and> net_Name a = net_Name n")
    case True
    then show ?thesis using Cons.prems(2) by simp
  next
    case False
    then have ex: "\<exists>m \<in> set nets. isSecondaryMultusNetwork m \<and> net_Name m = net_Name n"
      using Cons.prems(1) by auto
    show ?thesis
    proof (cases "isSecondaryMultusNetwork a")
      case True
      have "0 \<le> k + 1" using Cons.prems(2) by simp
      from Cons.IH[OF ex this] show ?thesis using True False by simp
    next
      case nsec: False
      from Cons.IH[OF ex Cons.prems(2)] show ?thesis using nsec by simp
    qed
  qed
qed

lemma ComposePodInterfaceName_declared:
  assumes "n \<in> set (Networks vmi)"
  shows "\<exists>name. ComposePodInterfaceName vmi n = Inr name"
proof (cases "isSecondaryMultusNetwork n")
  case True
  then have "\<exists>m \<in> set (Networks vmi). isSecondaryMultusNetwork m \<and> net_Name m = net_Name n"
    using assms by blast
  then have "0 < findMultusIndex_loop (Networks vmi) n 0"
    by (rule findMultusIndex_loop_found) simp
  then show ?thesis using True
    by (simp add: ComposePodInterfaceName_def findMultusIndex_def Let_def)
next
  case False
  then show ?thesis by (simp add: ComposePodInterfaceName_def)
qed

lemma validateNetworksTypes_source:
  "validateNetworksTypes nets = None \<Longrightarrow> n \<in> set nets \<Longrightarrow> Pod n \<noteq> None \<or> Multus n \<noteq> None"
  by (induction nets) (auto split: if_splits)

lemma indexNetworksByName_dom_aux:
  "dom (foldl (\<lambda>netsByName network. netsByName(net_Name network \<mapsto> network)) m nets) =
   dom m \<union> net_Name ` set nets"
  by (induction nets arbitrary: m) auto

lemma indexNetworksByName_Some:
  "indexNetworksByName nets name = Some net \<Longrightarrow> name \<in> net_Name ` set nets"
  using indexNetworksByName_dom_aux[of Map.empty nets]
  by (auto simp: indexNetworksByName_def dom_def)

lemma getPodInterfaceName_loop_declared:
  "set nets \<subseteq> set (Networks vmi) \<Longrightarrow> ifaceName \<in> net_Name ` set nets \<Longrightarrow>
   (\<And>n. n \<in> set nets \<Longrightarrow> Pod n \<noteq> None \<or> Multus n \<noteq> None) \<Longrightarrow>
   (\<exists>name. getPodInterfaceName_loop vmi nets ifaceName = Inr name) \<or>
   getPodInterfaceName_loop vmi nets ifaceName = Inl nilDereference"
proof (induction nets)
  case Nil
  then show ?case by simp
next
  case (Cons n nets)
  have src: "\<not> (Pod n = None \<and> Multus n = None)" using Cons.prems(3)[of n] by simp
  show ?case
  proof (cases "FindInterfaceByNetworkName vmi n")
    case None
    then show ?thesis using src by auto
  next
    case (Some iface)
    then have nm: "if_Name iface = net_Name n"
      by (auto simp: FindInterfaceByNetworkName_def find_Some_iff)
    show ?thesis
    proof (cases "net_Name n = ifaceName")
      case True
      then show ?thesis using src Some nm ComposePodInterfaceName_declared[of n vmi] Cons.prems(1)
        by auto
    next
      case False
      then have "ifaceName \<in> net_Name ` set nets" using Cons.prems(2) by auto
      then show ?thesis using src Some nm False Cons.IH Cons.prems(1,3) by auto
    qed
  qed
qed

lemma getPodInterfaceName_in_converter:
  assumes "validateNetworksTypes (Networks vmi) = None"
    and "indexNetworksByName (Networks vmi) ifaceName = Some net"
  shows "(\<exists>name. getPodInterfaceName vmi ifaceName = Inr name) \<or>
         getPodInterfaceName vmi ifaceName = Inl nilDereference"
  unfolding getPodInterfaceName_def
  using assms validateNetworksTypes_source[OF assms(1)] indexNetworksByName_Some[OF assms(2)]
  by (intro getPodInterfaceName_loop_declared) auto

end
